theory Spec2Isabelle
  imports
    Complex_Main
    "HOL-Library.Char_ord"
    "HOL-Library.List_Lexorder"
    "HOL-Library.Product_Lexorder"
    "HOL-Library.Multiset"
begin

section \<open>The coffee shop sales dashboard (\<^verbatim>\<open>src/app.py\<close>)\<close>

text \<open>
  The program loads a table of line-item sales, narrows it by a date range and a set of
  stores, and derives a handful of grouped views from the narrowed table. This theory
  embeds the table, the filter and every derivation of \<^verbatim>\<open>main\<close>, and
  the order in which \<^verbatim>\<open>main\<close> emits page elements.

  Conventions of the embedding.
  \<^item> A DataFrame is the list of its rows, in row order, as \<^verbatim>\<open>read_csv\<close> returns
    them. A cell of a text column may be missing (NaN: an empty cell of the file). The
    column \<^verbatim>\<open>transaction_time\<close> has the dtype that \<^verbatim>\<open>read_csv\<close> infers for it:
    text when some cell is not a number, numeric when every cell that is present is a
    number (times such as 0930 are read as the integer 930). Dates and the numeric
    columns are never missing.
  \<^item> A pandas \<^verbatim>\<open>Timestamp\<close> is the number of nanoseconds since
    1970-01-01T00:00, an \<^typ>\<open>int\<close>; a Python \<^verbatim>\<open>date\<close> is the
    number of days since 1970-01-01.
  \<^item> \<^verbatim>\<open>transaction_qty\<close> is an int64 column: its sums are computed in 64-bit
    two's complement and wrap around.
  \<^item> Prices are decimals, modelled as exact rationals: sums and means are exact. The
    code adds and multiplies in float64, whose results are these values rounded, so that
    two sums of the same prices taken in different orders may differ in the code. Only
    the lemma \<open>groupby_sum\<close>, which says so, equates two such sums.
  \<^item> Strings are lists of characters compared lexicographically by character code, as
    Python compares \<^verbatim>\<open>str\<close> values.
  \<^item> The pandas operations are modelled by their documented behaviour:
    \<^verbatim>\<open>groupby\<close> (with its defaults \<^verbatim>\<open>sort=True\<close> and
    \<^verbatim>\<open>dropna=True\<close>) yields one group per distinct key that is present, in
    ascending key order, each group keeping its rows in table order, and leaves out the
    rows whose key is missing; \<^verbatim>\<open>nlargest(n, col)\<close> (with its default
    \<^verbatim>\<open>keep='first'\<close>) is the first \<open>n\<close> rows of the stable descending
    sort by \<open>col\<close>; \<^verbatim>\<open>mean\<close> of no values is NaN; the \<^verbatim>\<open>.str\<close>
    accessor exists only on a column of text.
\<close>

subsection \<open>The table\<close>

type_synonym timestamp = int
type_synonym date = int

text \<open>A cell of the column \<^verbatim>\<open>transaction_time\<close> as \<^verbatim>\<open>read_csv\<close> returns it: a
  string, a number, or NaN.\<close>

datatype cell = Text string | Numeric rat | Missing

text \<open>A row of \<^verbatim>\<open>Coffee Shop Sales.csv\<close> as \<^verbatim>\<open>read_csv\<close> returns it,
  with \<^verbatim>\<open>transaction_date\<close> already parsed. In the three columns of categorical
  strings \<open>None\<close> is a missing cell.\<close>

record csv_row =
  csv_transaction_id :: int
  csv_transaction_date :: timestamp
  csv_transaction_time :: cell
  csv_transaction_qty :: int
  csv_store_location :: "string option"
  csv_unit_price :: rat
  csv_product_category :: "string option"
  csv_product_type :: "string option"

text \<open>A row of the loaded table: the columns of the file and the derived
  \<^verbatim>\<open>total_price\<close>.\<close>

record row =
  transaction_id :: int
  transaction_date :: timestamp
  transaction_time :: cell
  transaction_qty :: int
  store_location :: "string option"
  unit_price :: rat
  product_category :: "string option"
  product_type :: "string option"
  total_price :: rat

type_synonym dataframe = "row list"

text \<open>\<^verbatim>\<open>load_data\<close>: \<^verbatim>\<open>df['total_price'] = df['transaction_qty'] * df['unit_price']\<close>.\<close>

definition load_row :: "csv_row \<Rightarrow> row" where
  "load_row c =
     \<lparr>transaction_id = csv_transaction_id c,
      transaction_date = csv_transaction_date c,
      transaction_time = csv_transaction_time c,
      transaction_qty = csv_transaction_qty c,
      store_location = csv_store_location c,
      unit_price = csv_unit_price c,
      product_category = csv_product_category c,
      product_type = csv_product_type c,
      total_price = of_int (csv_transaction_qty c) * csv_unit_price c\<rparr>"

definition load_data :: "csv_row list \<Rightarrow> dataframe" where
  "load_data csv = map load_row csv"

subsection \<open>Timestamps and dates\<close>

definition ns_per_second :: int where
  "ns_per_second = 1000000000"

definition ns_per_day :: int where
  "ns_per_day = 86400 * ns_per_second"

text \<open>\<^verbatim>\<open>pd.to_datetime(d)\<close> of a date: midnight of that day.\<close>

definition to_datetime :: "date \<Rightarrow> timestamp" where
  "to_datetime d = d * ns_per_day"

text \<open>\<^verbatim>\<open>pd.Timedelta(days=d)\<close> and \<^verbatim>\<open>pd.Timedelta(seconds=s)\<close>.\<close>

definition Timedelta_days :: "int \<Rightarrow> int" where
  "Timedelta_days d = d * ns_per_day"

definition Timedelta_seconds :: "int \<Rightarrow> int" where
  "Timedelta_seconds s = s * ns_per_second"

text \<open>\<^verbatim>\<open>Timestamp.normalize()\<close>: the time of day is set to midnight.\<close>

definition normalize_ts :: "timestamp \<Rightarrow> timestamp" where
  "normalize_ts t = (t div ns_per_day) * ns_per_day"

text \<open>\<^verbatim>\<open>Timestamp.date()\<close>: the calendar day of a timestamp.\<close>

definition date_of :: "timestamp \<Rightarrow> date" where
  "date_of t = t div ns_per_day"

definition day_order :: "string list" where
  "day_order = [''Monday'', ''Tuesday'', ''Wednesday'', ''Thursday'', ''Friday'',
                ''Saturday'', ''Sunday'']"

text \<open>\<^verbatim>\<open>dt.day_name()\<close>. Day 0 (1970-01-01) was a Thursday, so the weekday number
  (Monday is 0) of day \<open>d\<close> is \<open>(d + 3) mod 7\<close>.\<close>

definition day_name :: "timestamp \<Rightarrow> string" where
  "day_name t = day_order ! nat ((date_of t + 3) mod 7)"

subsection \<open>The filter (lines 44 to 70 of \<^verbatim>\<open>main\<close>)\<close>

text \<open>Lines 55 and 56: the two dates of the date widget become timestamps.\<close>

definition start_date :: "date \<Rightarrow> timestamp" where
  "start_date d0 = to_datetime d0"

definition end_date :: "date \<Rightarrow> timestamp" where
  "end_date d1 = to_datetime d1 + Timedelta_days 1 - Timedelta_seconds 1"

text \<open>Lines 66 to 70: boolean-mask selection; \<^verbatim>\<open>isin\<close> is membership in the
  selected values (a missing store is selected when NaN is among them).\<close>

definition filtered_df ::
  "dataframe \<Rightarrow> timestamp \<Rightarrow> timestamp \<Rightarrow> string option list \<Rightarrow> dataframe" where
  "filtered_df df start_ts end_ts selected_stores =
     filter (\<lambda>r. normalize_ts (transaction_date r) \<ge> normalize_ts start_ts
                \<and> normalize_ts (transaction_date r) \<le> normalize_ts end_ts
                \<and> store_location r \<in> set selected_stores) df"

text \<open>\<^verbatim>\<open>Series.unique()\<close>: the distinct values in order of first appearance, NaN
  among them when a cell is missing.\<close>

fun unique :: "'a list \<Rightarrow> 'a list" where
  "unique [] = []"
| "unique (x # xs) = x # filter (\<lambda>y. y \<noteq> x) (unique xs)"

text \<open>\<^verbatim>\<open>Series.min()\<close> and \<^verbatim>\<open>Series.max()\<close>; of no values the result is
  missing.\<close>

definition series_min :: "int list \<Rightarrow> int option" where
  "series_min xs = (case xs of [] \<Rightarrow> None | x # ys \<Rightarrow> Some (fold min ys x))"

definition series_max :: "int list \<Rightarrow> int option" where
  "series_max xs = (case xs of [] \<Rightarrow> None | x # ys \<Rightarrow> Some (fold max ys x))"

text \<open>Lines 44 and 45: the bounds of the date widget, which are also its default
  selection.\<close>

definition min_date :: "dataframe \<Rightarrow> date option" where
  "min_date df = map_option date_of (series_min (map transaction_date df))"

definition max_date :: "dataframe \<Rightarrow> date option" where
  "max_date df = map_option date_of (series_max (map transaction_date df))"

subsection \<open>Column reductions and grouping\<close>

text \<open>\<^verbatim>\<open>Series.nunique()\<close>: how many distinct values a column holds.\<close>

definition nunique :: "'a list \<Rightarrow> nat" where
  "nunique xs = length (unique xs)"

text \<open>\<^verbatim>\<open>Series.mean()\<close>: the sum over the number of values; \<open>None\<close> stands for NaN,
  the mean of no values.\<close>

definition mean :: "rat list \<Rightarrow> rat option" where
  "mean xs = (if xs = [] then None else Some (sum_list xs / of_nat (length xs)))"

text \<open>The value of a 64-bit two's complement integer: the representative of \<open>x\<close> modulo
  \<open>2 ^ 64\<close> that lies between \<open>- 2 ^ 63\<close> and \<open>2 ^ 63 - 1\<close>.\<close>

definition int64 :: "int \<Rightarrow> int" where
  "int64 x = (x + 2 ^ 63) mod 2 ^ 64 - 2 ^ 63"

text \<open>\<^verbatim>\<open>sum\<close> of an int64 column: every addition is a machine addition, which
  wraps around.\<close>

definition sum_int64 :: "int list \<Rightarrow> int" where
  "sum_int64 xs = fold (\<lambda>x acc. int64 (acc + x)) xs 0"

text \<open>\<^verbatim>\<open>df.groupby(by)\<close>: the distinct keys that are present, in ascending order,
  each with the rows that carry it, in table order. A row whose key is missing (\<open>None\<close>)
  is in no group.\<close>

definition groupby :: "('r \<Rightarrow> 'k::linorder option) \<Rightarrow> 'r list \<Rightarrow> ('k \<times> 'r list) list" where
  "groupby by df =
     map (\<lambda>k. (k, filter (\<lambda>r. by r = Some k) df)) (sort (unique (List.map_filter by df)))"

text \<open>The keys of a table that are present: those carried by some row.\<close>

definition present_keys :: "('r \<Rightarrow> 'k option) \<Rightarrow> 'r list \<Rightarrow> 'k set" where
  "present_keys by df = {k. Some k \<in> by ` set df}"

text \<open>The key of a row under \<^verbatim>\<open>groupby(['product_category', 'product_type'])\<close>: it is
  missing as soon as one of the two cells is.\<close>

definition product_key :: "row \<Rightarrow> (string \<times> string) option" where
  "product_key r =
     (case product_category r of
        None \<Rightarrow> None
      | Some c \<Rightarrow> (case product_type r of None \<Rightarrow> None | Some t \<Rightarrow> Some (c, t)))"

text \<open>A row of an aggregated table after \<^verbatim>\<open>reset_index()\<close>: the group key and the
  three aggregated columns, which keep the names of the columns they aggregate.\<close>

record 'k agg_row =
  agg_key :: 'k
  agg_total_price :: rat
  agg_transaction_id :: nat
  agg_transaction_qty :: int

text \<open>Lines 15 to 21.\<close>

definition create_daily_metrics :: "dataframe \<Rightarrow> timestamp agg_row list" where
  "create_daily_metrics df =
     map (\<lambda>(k, g). \<lparr>agg_key = k,
                     agg_total_price = sum_list (map total_price g),
                     agg_transaction_id = nunique (map transaction_id g),
                     agg_transaction_qty = sum_int64 (map transaction_qty g)\<rparr>)
         (groupby (\<lambda>r. Some (transaction_date r)) df)"

text \<open>Lines 23 to 28; \<^verbatim>\<open>'count'\<close> is the number of rows of the group.\<close>

definition create_product_metrics :: "dataframe \<Rightarrow> (string \<times> string) agg_row list" where
  "create_product_metrics df =
     map (\<lambda>(k, g). \<lparr>agg_key = k,
                     agg_total_price = sum_list (map total_price g),
                     agg_transaction_id = length (map transaction_id g),
                     agg_transaction_qty = sum_int64 (map transaction_qty g)\<rparr>)
         (groupby product_key df)"

text \<open>Lines 163 to 167.\<close>

definition store_metrics :: "dataframe \<Rightarrow> string agg_row list" where
  "store_metrics fdf =
     map (\<lambda>(k, g). \<lparr>agg_key = k,
                     agg_total_price = sum_list (map total_price g),
                     agg_transaction_id = nunique (map transaction_id g),
                     agg_transaction_qty = sum_int64 (map transaction_qty g)\<rparr>)
         (groupby store_location fdf)"

text \<open>\<^verbatim>\<open>DataFrame.nlargest(n, col)\<close>: the column is negated and sorted ascending by a
  stable sort, and the first \<open>n\<close> rows are returned.\<close>

definition nlargest :: "nat \<Rightarrow> ('r \<Rightarrow> rat) \<Rightarrow> 'r list \<Rightarrow> 'r list" where
  "nlargest n col df = take n (sort_key (\<lambda>r. - col r) df)"

text \<open>Lines 123 to 125: the data of the chart of the top ten products.\<close>

definition top_products :: "dataframe \<Rightarrow> (string \<times> string) agg_row list" where
  "top_products fdf = nlargest 10 agg_total_price (create_product_metrics fdf)"

text \<open>The order of the chart of the top products: the larger revenue first, and of two
  groups with the same revenue the one with the smaller (category, type) key first.\<close>

definition ranks_before :: "'k::linorder agg_row \<Rightarrow> 'k agg_row \<Rightarrow> bool" where
  "ranks_before a b \<longleftrightarrow>
     agg_total_price b < agg_total_price a
     \<or> (agg_total_price a = agg_total_price b \<and> agg_key a < agg_key b)"

text \<open>What can go wrong in \<^verbatim>\<open>main\<close>.\<close>

datatype error = IndexError | AttributeError

text \<open>The dtype of the column \<^verbatim>\<open>transaction_time\<close>: \<^verbatim>\<open>read_csv\<close> makes it a column
  of text (dtype object) when some cell is not a number, and a numeric column otherwise.
  A table without rows has columns of dtype object. Selecting rows keeps the dtype, so
  the filtered table has the dtype of the loaded one.\<close>

datatype dtype = Object_dtype | Numeric_dtype

fun is_text :: "cell \<Rightarrow> bool" where
  "is_text (Text _) = True"
| "is_text _ = False"

definition time_dtype :: "dataframe \<Rightarrow> dtype" where
  "time_dtype df =
     (if df = [] \<or> list_ex (\<lambda>r. is_text (transaction_time r)) df then Object_dtype
      else Numeric_dtype)"

text \<open>\<^verbatim>\<open>.str[:2]\<close> on one cell of a column of text: the first two characters of a
  string, or the whole string when it is shorter; NaN for a cell that is not a string.\<close>

fun str_slice2 :: "cell \<Rightarrow> string option" where
  "str_slice2 (Text s) = Some (take 2 s)"
| "str_slice2 _ = None"

text \<open>Lines 193 to 196. On a numeric column the \<^verbatim>\<open>.str\<close> accessor raises
  \<^verbatim>\<open>AttributeError\<close>. Otherwise the rows are grouped by the sliced time, and
  \<^verbatim>\<open>sort_values\<close> orders the result by the key column.\<close>

definition hourly_data :: "dtype \<Rightarrow> dataframe \<Rightarrow> error + (string \<times> rat option) list" where
  "hourly_data dt fdf =
     (case dt of
        Numeric_dtype \<Rightarrow> Inl AttributeError
      | Object_dtype \<Rightarrow>
          Inr (sort_key fst
                 (map (\<lambda>(k, g). (k, mean (map total_price g)))
                      (groupby (\<lambda>r. str_slice2 (transaction_time r)) fdf))))"

text \<open>\<^verbatim>\<open>Series.reindex(labels)\<close>: one entry per label, in the order of the labels,
  with the value the series has at that label, or NaN when the series has no such label.\<close>

definition reindex :: "'k list \<Rightarrow> ('k \<times> rat option) list \<Rightarrow> ('k \<times> rat option) list" where
  "reindex labels series =
     map (\<lambda>l. (l, case map_of series l of None \<Rightarrow> None | Some v \<Rightarrow> v)) labels"

text \<open>Lines 216 to 219.\<close>

definition daily_patterns :: "dataframe \<Rightarrow> (string \<times> rat option) list" where
  "daily_patterns fdf =
     reindex day_order
       (map (\<lambda>(k, g). (k, mean (map total_price g)))
            (groupby (\<lambda>r. Some (day_name (transaction_date r))) fdf))"

subsection \<open>The page that \<^verbatim>\<open>main\<close> renders\<close>

text \<open>What \<^verbatim>\<open>main\<close> does is the sequence of page elements that it emits. A metric
  carries the number that the source formats into its label; a chart carries the table
  that it plots.\<close>

datatype metric_value = Dollars "rat option" | Number int

datatype chart =
    Fig_revenue "timestamp agg_row list"
  | Fig_products "(string \<times> string) agg_row list"
  | Fig_categories "(string option \<times> rat) list"
  | Fig_stores "string agg_row list"
  | Fig_hourly "(string \<times> rat option) list"
  | Fig_daily "(string \<times> rat option) list"

datatype element =
    Page_config string
  | Sidebar_header string
  | Date_input "date option" "date option"
  | Multiselect "string option list"
  | Title string
  | Warning string
  | Metric string metric_value
  | Header string
  | Plotly_chart chart
  | Dataframe dataframe

text \<open>Lines 81 to 93: the four top-level metrics.\<close>

definition kpi_metrics :: "dataframe \<Rightarrow> element list" where
  "kpi_metrics fdf =
     [Metric ''Total Revenue'' (Dollars (Some (sum_list (map total_price fdf)))),
      Metric ''Total Transactions'' (Number (int (nunique (map transaction_id fdf)))),
      Metric ''Avg Transaction Value'' (Dollars (mean (map total_price fdf))),
      Metric ''Total Items Sold'' (Number (sum_int64 (map transaction_qty fdf)))]"

text \<open>Lines 95 to 185: the charts that come before the hourly view.\<close>

definition charts_before_hourly :: "dataframe \<Rightarrow> element list" where
  "charts_before_hourly fdf =
     [Header ''Sales Trends'',
      Plotly_chart (Fig_revenue (create_daily_metrics fdf)),
      Header ''Product Performance'',
      Plotly_chart (Fig_products (top_products fdf)),
      Plotly_chart (Fig_categories (map (\<lambda>r. (product_category r, total_price r)) fdf)),
      Header ''Store Performance'',
      Plotly_chart (Fig_stores (store_metrics fdf)),
      Header ''Time-based Analysis'']"

text \<open>Lines 95 to 239: the charts and the table view, in the order of the source. The
  hourly view may raise, and then nothing of what follows it is emitted.\<close>

definition charts :: "dtype \<Rightarrow> dataframe \<Rightarrow> error + element list" where
  "charts dt fdf =
     (case hourly_data dt fdf of
        Inl e \<Rightarrow> Inl e
      | Inr hourly \<Rightarrow>
          Inr (charts_before_hourly fdf
               @ [Plotly_chart (Fig_hourly hourly),
                  Plotly_chart (Fig_daily (daily_patterns fdf)),
                  Dataframe fdf]))"

text \<open>Lines 40 to 63: the sidebar. The date widget is bounded by, and preset to, the
  smallest and largest date of the table; the store widget offers, and is preset to, all
  stores of the table.\<close>

definition sidebar :: "dataframe \<Rightarrow> element list" where
  "sidebar df =
     [Sidebar_header ''Filters'',
      Date_input (min_date df) (max_date df),
      Multiselect (unique (map store_location df))]"

text \<open>\<^verbatim>\<open>main\<close>. Its inputs are the rows of the file and what the two widgets return:
  \<open>date_range\<close>, the dates picked so far (the source reads its elements 0 and 1, and
  an index out of range raises \<^verbatim>\<open>IndexError\<close>), and \<open>selected_stores\<close>. The result
  is the error raised, or the elements emitted when no error is raised. The spinner
  shown while loading and the column layout are left out, and the title is written
  without its emoji.\<close>

definition main ::
  "csv_row list \<Rightarrow> date list \<Rightarrow> string option list \<Rightarrow> error + element list" where
  "main csv date_range selected_stores =
     (let df = load_data csv in
      if df = [] then Inr [Page_config ''Maven Roasters Dashboard'']
      else
        (case date_range of
           d0 # d1 # _ \<Rightarrow>
             (let fdf = filtered_df df (start_date d0) (end_date d1) selected_stores;
                  top = Page_config ''Maven Roasters Dashboard'' # sidebar df
                          @ [Title ''Maven Roasters Sales Dashboard'']
              in if fdf = []
                 then Inr (top @ [Warning ''No data available for the selected filters.''])
                 else (case charts (time_dtype df) fdf of
                         Inl e \<Rightarrow> Inl e
                       | Inr cs \<Rightarrow> Inr (top @ kpi_metrics fdf @ cs)))
         | _ \<Rightarrow> Inl IndexError))"

text \<open>Whether an element shows a number or a table derived from the filtered rows.\<close>

fun shows_data :: "element \<Rightarrow> bool" where
  "shows_data (Metric _ _) = True"
| "shows_data (Plotly_chart _) = True"
| "shows_data (Dataframe _) = True"
| "shows_data _ = False"

subsection \<open>Example tables\<close>

text \<open>The two rows of the worked example, as \<^verbatim>\<open>read_csv\<close> returns them: 2023-01-01
  is day 19358, a Sunday, and the times 0930 and 1030, all digits, are read as the
  integers 930 and 1030.\<close>

definition example_csv :: "csv_row list" where
  "example_csv =
     [\<lparr>csv_transaction_id = 1, csv_transaction_date = 1672531200000000000,
       csv_transaction_time = Numeric 930, csv_transaction_qty = 2,
       csv_store_location = Some ''A'', csv_unit_price = 3,
       csv_product_category = Some ''Coffee'', csv_product_type = Some ''Latte''\<rparr>,
      \<lparr>csv_transaction_id = 2, csv_transaction_date = 1672531200000000000,
       csv_transaction_time = Numeric 1030, csv_transaction_qty = 1,
       csv_store_location = Some ''B'', csv_unit_price = 5,
       csv_product_category = Some ''Tea'', csv_product_type = Some ''Chai''\<rparr>]"

text \<open>A sale of one unit of a product at a given price, at 09:30:00 on 2023-01-01 in
  store A.\<close>

definition sale :: "int \<Rightarrow> string \<Rightarrow> string \<Rightarrow> rat \<Rightarrow> csv_row" where
  "sale i cat ty p =
     \<lparr>csv_transaction_id = i, csv_transaction_date = 1672531200000000000,
      csv_transaction_time = Text ''09:30:00'', csv_transaction_qty = 1,
      csv_store_location = Some ''A'', csv_unit_price = p,
      csv_product_category = Some cat, csv_product_type = Some ty\<rparr>"

text \<open>Two products with the same revenue; the one that comes first in the table has the
  larger key.\<close>

definition tie_csv :: "csv_row list" where
  "tie_csv = [sale 1 ''Tea'' ''Chai'' 5, sale 2 ''Coffee'' ''Latte'' 5]"

text \<open>Eleven products with eleven different revenues.\<close>

definition eleven_csv :: "csv_row list" where
  "eleven_csv =
     [sale 1 ''Tea'' ''A'' 3, sale 2 ''Tea'' ''B'' 9, sale 3 ''Tea'' ''C'' 1,
      sale 4 ''Tea'' ''D'' 11, sale 5 ''Tea'' ''E'' 4, sale 6 ''Tea'' ''F'' 8,
      sale 7 ''Tea'' ''G'' 2, sale 8 ''Tea'' ''H'' 10, sale 9 ''Tea'' ''I'' 5,
      sale 10 ''Tea'' ''J'' 7, sale 11 ''Tea'' ''K'' 6]"

text \<open>A sale of one unit with a given time cell, and a table of text times of which one
  has a single character and one is missing (an empty cell of the file).\<close>

definition timed_sale :: "int \<Rightarrow> cell \<Rightarrow> rat \<Rightarrow> csv_row" where
  "timed_sale i t p =
     \<lparr>csv_transaction_id = i, csv_transaction_date = 1672531200000000000,
      csv_transaction_time = t, csv_transaction_qty = 1, csv_store_location = Some ''A'',
      csv_unit_price = p, csv_product_category = Some ''Tea'',
      csv_product_type = Some ''Chai''\<rparr>"

definition short_time_csv :: "csv_row list" where
  "short_time_csv =
     [timed_sale 1 (Text ''7'') 4, timed_sale 2 (Text ''10:15:00'') 5, timed_sale 3 Missing 2,
      timed_sale 4 (Text ''09:30:00'') 6, timed_sale 5 (Text ''10:45:00'') 7]"

text \<open>Two line items of one transaction.\<close>

definition one_basket_csv :: "csv_row list" where
  "one_basket_csv = [sale 1 ''Coffee'' ''Latte'' 6, sale 1 ''Tea'' ''Chai'' 5]"

text \<open>Two sales of \<open>2 ^ 62\<close> units each, on the same day.\<close>

definition big_qty_csv :: "csv_row list" where
  "big_qty_csv =
     [(sale 1 ''Tea'' ''Chai'' 1)\<lparr>csv_transaction_qty := 4611686018427387904\<rparr>,
      (sale 2 ''Tea'' ''Chai'' 1)\<lparr>csv_transaction_qty := 4611686018427387904\<rparr>]"

text \<open>A sale in store A and a sale whose store and product type are missing.\<close>

definition missing_key_csv :: "csv_row list" where
  "missing_key_csv =
     [sale 1 ''Tea'' ''Chai'' 3,
      (sale 2 ''Tea'' ''Chai'' 2)\<lparr>csv_store_location := None, csv_product_type := None\<rparr>]"

section \<open>Properties of the filter\<close>

lemma load_example: "load_data example_csv =
  [\<lparr>transaction_id = 1, transaction_date = 1672531200000000000, transaction_time = Numeric 930,
    transaction_qty = 2, store_location = Some ''A'', unit_price = 3, product_category = Some ''Coffee'',
    product_type = Some ''Latte'', total_price = 6\<rparr>,
   \<lparr>transaction_id = 2, transaction_date = 1672531200000000000, transaction_time = Numeric 1030,
    transaction_qty = 1, store_location = Some ''B'', unit_price = 5, product_category = Some ''Tea'',
    product_type = Some ''Chai'', total_price = 5\<rparr>]"
  by (simp add: load_data_def example_csv_def load_row_def)

lemma ns_per_day_pos: "0 < ns_per_day"
  by (simp add: ns_per_day_def ns_per_second_def)

lemma normalize_to_datetime: "normalize_ts (to_datetime d) = to_datetime d"
  using ns_per_day_pos by (simp add: normalize_ts_def to_datetime_def)

lemma normalize_end_date: "normalize_ts (end_date d1) = to_datetime d1"
proof -
  have "end_date d1 = (ns_per_day - ns_per_second) + d1 * ns_per_day"
    by (simp add: end_date_def to_datetime_def Timedelta_days_def Timedelta_seconds_def)
  moreover have "0 \<le> ns_per_day - ns_per_second" "ns_per_day - ns_per_second < ns_per_day"
    by (simp_all add: ns_per_day_def ns_per_second_def)
  ultimately have "end_date d1 div ns_per_day = d1"
    using ns_per_day_pos by (simp add: div_pos_pos_trivial)
  then show ?thesis
    by (simp add: normalize_ts_def to_datetime_def)
qed

lemma normalize_le_iff: "normalize_ts s \<le> normalize_ts t \<longleftrightarrow> date_of s \<le> date_of t"
  using ns_per_day_pos by (simp add: normalize_ts_def date_of_def)

lemma date_of_to_datetime: "date_of (to_datetime d) = d"
  using ns_per_day_pos by (simp add: date_of_def to_datetime_def)

text \<open>
  C8. With an empty store selection the filter returns the empty table, whatever the
  table and whatever the two bounds of the date range.
\<close>

theorem filter_empty_store_set: "filtered_df df start_ts end_ts [] = []"
  by (simp add: filtered_df_def)

lemma filtered_df_by_day:
  "filtered_df df (start_date d0) (end_date d1) store_set =
     filter (\<lambda>r. d0 \<le> date_of (transaction_date r) \<and> date_of (transaction_date r) \<le> d1
                \<and> store_location r \<in> set store_set) df"
proof -
  have lo: "normalize_ts (start_date d0) \<le> normalize_ts t \<longleftrightarrow> d0 \<le> date_of t" for t
    by (simp add: start_date_def normalize_le_iff date_of_to_datetime)
  have "normalize_ts (end_date d1) = normalize_ts (to_datetime d1)"
    by (simp add: normalize_end_date normalize_to_datetime)
  then have hi: "normalize_ts t \<le> normalize_ts (end_date d1) \<longleftrightarrow> date_of t \<le> d1" for t
    by (simp add: normalize_le_iff date_of_to_datetime)
  show ?thesis
    unfolding filtered_df_def by (simp add: lo hi)
qed

text \<open>
  C3. The filter keeps exactly the rows whose calendar day (the date with the time of day
  discarded) lies between the two selected dates, both ends included, and whose store is
  one of the selected stores; the rows keep their order.
\<close>

theorem filter_keeps_exactly:
  "filtered_df df (start_date d0) (end_date d1) store_set =
     filter (\<lambda>r. d0 \<le> date_of (transaction_date r) \<and> date_of (transaction_date r) \<le> d1
                \<and> store_location r \<in> set store_set) df"
  by (rule filtered_df_by_day)

text \<open>On the worked example, the single day 2023-01-01 and store B select the second
  row.\<close>

theorem filter_keeps_exactly_witness:
  "filtered_df (load_data example_csv) (start_date 19358) (end_date 19358) [Some ''B'']
   = [\<lparr>transaction_id = 2, transaction_date = 1672531200000000000, transaction_time = Numeric 1030,
    transaction_qty = 1, store_location = Some ''B'', unit_price = 5, product_category = Some ''Tea'',
    product_type = Some ''Chai'', total_price = 5\<rparr>]"
  unfolding filter_keeps_exactly load_example
  by (simp add: date_of_def ns_per_day_def ns_per_second_def)






lemma set_unique: "set (unique xs) = set xs"
  by (induction xs) auto

lemma distinct_unique: "distinct (unique xs)"
  by (induction xs) (auto simp: set_unique)



section \<open>Properties of the column reductions and of grouping\<close>

lemma nunique_card: "nunique xs = card (set xs)"
  using distinct_card [OF distinct_unique, of xs] by (simp add: nunique_def set_unique)

lemma sort_unique: "sort (unique xs) = sorted_list_of_set (set xs)"
proof -
  have "sort (unique xs) = sort (remdups (unique xs))"
    by (simp add: distinct_unique distinct_remdups_id)
  also have "\<dots> = sorted_list_of_set (set (unique xs))"
    by (simp add: sorted_list_of_set_sort_remdups)
  finally show ?thesis by (simp add: set_unique)
qed

lemma set_map_filter_keys: "set (List.map_filter by df) = present_keys by df"
  by (induction df) (auto simp: List.map_filter_simps present_keys_def image_iff split: option.splits)

lemma finite_present_keys: "finite (present_keys by df)"
  using set_map_filter_keys [of "by" df, symmetric] by simp

text \<open>The groups of a table: one per key that is present, in ascending key order.\<close>

lemma groupby_keys:
  "groupby by df =
     map (\<lambda>k. (k, filter (\<lambda>r. by r = Some k) df)) (sorted_list_of_set (present_keys by df))"
  by (simp add: groupby_def sort_unique set_map_filter_keys)

lemma present_keys_Some: "present_keys (\<lambda>r. Some (f r)) df = f ` set df"
  by (auto simp: present_keys_def)

text \<open>An int64 sum is the exact sum reduced to 64 bits.\<close>

lemma int64_range: "- (2 ^ 63) \<le> int64 x \<and> int64 x < 2 ^ 63"
  by (simp add: int64_def)

lemma int64_id: "- (2 ^ 63) \<le> x \<Longrightarrow> x < 2 ^ 63 \<Longrightarrow> int64 x = x"
  by (simp add: int64_def)

lemma int64_add_left: "int64 (int64 a + x) = int64 (a + x)"
proof -
  have e: "int64 a + x + 2 ^ 63 = (a + 2 ^ 63) mod 2 ^ 64 + x"
    by (simp add: int64_def)
  have "(int64 a + x + 2 ^ 63) mod 2 ^ 64 = ((a + 2 ^ 63) mod 2 ^ 64 + x) mod 2 ^ 64"
    by (simp only: e)
  also have "\<dots> = (a + 2 ^ 63 + x) mod 2 ^ 64"
    by (rule mod_add_left_eq)
  also have "a + 2 ^ 63 + x = a + x + 2 ^ 63"
    by simp
  finally show ?thesis
    by (simp only: int64_def)
qed

lemma fold_int64: "fold (\<lambda>x acc. int64 (acc + x)) xs (int64 a) = int64 (a + sum_list xs)"
proof (induction xs arbitrary: a)
  case Nil
  then show ?case by simp
next
  case (Cons x xs)
  have "fold (\<lambda>x acc. int64 (acc + x)) (x # xs) (int64 a)
        = fold (\<lambda>x acc. int64 (acc + x)) xs (int64 (a + x))"
    by (simp add: int64_add_left)
  then show ?case using Cons [of "a + x"] by (simp add: add.assoc)
qed

lemma sum_int64_eq: "sum_int64 xs = int64 (sum_list xs)"
  using fold_int64 [of xs 0] by (simp add: sum_int64_def int64_def)

text \<open>Splitting a table by key and adding up group by group gives the sum over the rows
  whose key is present, whenever every key of the table is among the keys summed over.\<close>

lemma sum_filter_partition:
  fixes v :: "'r \<Rightarrow> 'a::comm_monoid_add"
  assumes "finite K" "present_keys by df \<subseteq> K"
  shows "(\<Sum>k\<in>K. sum_list (map v (filter (\<lambda>r. by r = Some k) df)))
         = sum_list (map v (filter (\<lambda>r. by r \<noteq> None) df))"
  using assms(2)
proof (induction df)
  case Nil
  then show ?case by simp
next
  case (Cons r df)
  then have sub: "present_keys by df \<subseteq> K"
    by (auto simp: present_keys_def)
  show ?case
  proof (cases "by r")
    case None
    then show ?thesis using Cons.IH [OF sub] by simp
  next
    case (Some k0)
    then have k0: "k0 \<in> K" using Cons.prems by (auto simp: present_keys_def)
    have "(\<Sum>k\<in>K. sum_list (map v (filter (\<lambda>r. by r = Some k) (r # df))))
        = (\<Sum>k\<in>K. (if k = k0 then v r else 0)
                    + sum_list (map v (filter (\<lambda>r. by r = Some k) df)))"
      using Some by (intro sum.cong) auto
    also have "\<dots> = (\<Sum>k\<in>K. if k = k0 then v r else 0)
                   + (\<Sum>k\<in>K. sum_list (map v (filter (\<lambda>r. by r = Some k) df)))"
      by (simp add: sum.distrib)
    also have "(\<Sum>k\<in>K. if k = k0 then v r else 0) = v r"
      using assms(1) k0 by (simp add: sum.delta)
    finally show ?thesis using Cons.IH [OF sub] Some by simp
  qed
qed

lemma sum_list_singletons: "sum_list (map (\<lambda>r. {#r#}) xs) = mset xs"
  by (induction xs) auto

lemma groupby_partition:
  "mset (concat (map snd (groupby by df))) = mset (filter (\<lambda>r. by r \<noteq> None) df)"
proof -
  let ?K = "present_keys by df"
  have "mset (concat (map snd (groupby by df)))
        = sum_list (map (\<lambda>k. mset (filter (\<lambda>r. by r = Some k) df)) (sorted_list_of_set ?K))"
    by (simp add: groupby_keys mset_concat comp_def)
  also have "\<dots> = (\<Sum>k\<in>?K. mset (filter (\<lambda>r. by r = Some k) df))"
    using finite_present_keys [of "by" df] by (simp add: sum_list_distinct_conv_sum_set)
  also have "\<dots> = (\<Sum>k\<in>?K. sum_list (map (\<lambda>r. {#r#}) (filter (\<lambda>r. by r = Some k) df)))"
    by (simp add: sum_list_singletons)
  also have "\<dots> = sum_list (map (\<lambda>r. {#r#}) (filter (\<lambda>r. by r \<noteq> None) df))"
    by (rule sum_filter_partition) (simp_all add: finite_present_keys)
  finally show ?thesis by (simp add: sum_list_singletons)
qed

lemma load_missing_key: "load_data missing_key_csv =
  [\<lparr>transaction_id = 1, transaction_date = 1672531200000000000,
    transaction_time = Text ''09:30:00'', transaction_qty = 1, store_location = Some ''A'',
    unit_price = 3, product_category = Some ''Tea'', product_type = Some ''Chai'',
    total_price = 3\<rparr>,
   \<lparr>transaction_id = 2, transaction_date = 1672531200000000000,
    transaction_time = Text ''09:30:00'', transaction_qty = 1, store_location = None,
    unit_price = 2, product_category = Some ''Tea'', product_type = None,
    total_price = 2\<rparr>]"
  by (simp add: load_data_def missing_key_csv_def sale_def load_row_def)

text \<open>
  C2, as stated, fails on a table in which one sale has neither a store nor a product
  type: the revenue of the table is 5, but the per-store revenues and the per-product
  revenues each add up to 3, since \<^verbatim>\<open>groupby\<close> leaves out a row whose key is missing.
  (In the code the two totals can also differ on a table without missing cells, in the
  last digits: float64 additions round, and the grouped total adds the same prices in
  another order. This model adds prices exactly and does not show that.)
\<close>

theorem grouping_revenue_counterexample:
  "sum_list (map total_price (load_data missing_key_csv)) = 5
   \<and> sum_list (map agg_total_price (store_metrics (load_data missing_key_csv))) = 3
   \<and> sum_list (map agg_total_price (create_product_metrics (load_data missing_key_csv))) = 3"
  unfolding load_missing_key
  by (simp add: store_metrics_def create_product_metrics_def groupby_def product_key_def
      List.map_filter_simps)

text \<open>
  C2, amended. For every table and each of the three groupings, the groups taken
  together hold exactly the rows whose key is present, each of them once: all rows for
  the daily series, the rows that have a product category and a product type for the
  product metrics, the rows that have a store for the store metrics. The
  \<^verbatim>\<open>total_price\<close> of a group is the sum of \<^verbatim>\<open>total_price\<close> over the rows of that
  group. So no grouping counts the revenue of a row twice, and a grouping loses the
  revenue of exactly the rows whose key is missing.
\<close>

theorem grouping_partitions_rows:
  "mset (concat (map snd (groupby (\<lambda>r. Some (transaction_date r)) df))) = mset df
   \<and> mset (concat (map snd (groupby product_key df)))
       = mset (filter (\<lambda>r. product_key r \<noteq> None) df)
   \<and> mset (concat (map snd (groupby store_location df)))
       = mset (filter (\<lambda>r. store_location r \<noteq> None) df)
   \<and> map agg_total_price (create_daily_metrics df)
       = map (\<lambda>(k, g). sum_list (map total_price g))
             (groupby (\<lambda>r. Some (transaction_date r)) df)
   \<and> map agg_total_price (create_product_metrics df)
       = map (\<lambda>(k, g). sum_list (map total_price g)) (groupby product_key df)
   \<and> map agg_total_price (store_metrics df)
       = map (\<lambda>(k, g). sum_list (map total_price g)) (groupby store_location df)"
proof -
  have "mset (concat (map snd (groupby (\<lambda>r. Some (transaction_date r)) df))) = mset df"
    by (simp add: groupby_partition)
  moreover have "map agg_total_price (create_daily_metrics df)
        = map (\<lambda>(k, g). sum_list (map total_price g))
              (groupby (\<lambda>r. Some (transaction_date r)) df)"
    by (simp add: create_daily_metrics_def split_def)
  moreover have "map agg_total_price (create_product_metrics df)
        = map (\<lambda>(k, g). sum_list (map total_price g)) (groupby product_key df)"
    by (simp add: create_product_metrics_def split_def)
  moreover have "map agg_total_price (store_metrics df)
        = map (\<lambda>(k, g). sum_list (map total_price g)) (groupby store_location df)"
    by (simp add: store_metrics_def split_def)
  ultimately show ?thesis
    by (simp add: groupby_partition)
qed

text \<open>On the table of the counterexample the store groups hold the one sale that has a
  store.\<close>

theorem grouping_partitions_rows_witness:
  "mset (concat (map snd (groupby store_location (load_data missing_key_csv))))
     = {#\<lparr>transaction_id = 1, transaction_date = 1672531200000000000,
          transaction_time = Text ''09:30:00'', transaction_qty = 1,
          store_location = Some ''A'', unit_price = 3, product_category = Some ''Tea'',
          product_type = Some ''Chai'', total_price = 3\<rparr>#}
   \<and> map agg_total_price (store_metrics (load_data missing_key_csv)) = [3]"
proof -
  have "groupby store_location (load_data missing_key_csv)
        = [(''A'', [\<lparr>transaction_id = 1, transaction_date = 1672531200000000000,
          transaction_time = Text ''09:30:00'', transaction_qty = 1,
          store_location = Some ''A'', unit_price = 3, product_category = Some ''Tea'',
          product_type = Some ''Chai'', total_price = 3\<rparr>])]"
    unfolding load_missing_key by (simp add: groupby_def List.map_filter_simps)
  with grouping_partitions_rows [of "load_data missing_key_csv"] show ?thesis
    by simp
qed

text \<open>When the additions are exact, as they are in this model, the per-group sums of a
  column add up to the sum of the column over the rows whose key is present.\<close>

lemma groupby_sum:
  fixes v :: "'r \<Rightarrow> 'a::comm_monoid_add"
  shows "sum_list (map (\<lambda>(k, g). sum_list (map v g)) (groupby by df))
         = sum_list (map v (filter (\<lambda>r. by r \<noteq> None) df))"
proof -
  let ?K = "present_keys by df"
  have "sum_list (map (\<lambda>(k, g). sum_list (map v g)) (groupby by df))
        = sum_list (map (\<lambda>k. sum_list (map v (filter (\<lambda>r. by r = Some k) df)))
                        (sorted_list_of_set ?K))"
    by (simp add: groupby_keys comp_def)
  also have "\<dots> = (\<Sum>k\<in>?K. sum_list (map v (filter (\<lambda>r. by r = Some k) df)))"
    using finite_present_keys [of "by" df] by (simp add: sum_list_distinct_conv_sum_set)
  also have "\<dots> = sum_list (map v (filter (\<lambda>r. by r \<noteq> None) df))"
    by (rule sum_filter_partition) (simp_all add: finite_present_keys)
  finally show ?thesis .
qed

lemma load_big_qty: "load_data big_qty_csv =
  [\<lparr>transaction_id = 1, transaction_date = 1672531200000000000,
    transaction_time = Text ''09:30:00'', transaction_qty = 4611686018427387904,
    store_location = Some ''A'', unit_price = 1, product_category = Some ''Tea'',
    product_type = Some ''Chai'', total_price = 4611686018427387904\<rparr>,
   \<lparr>transaction_id = 2, transaction_date = 1672531200000000000,
    transaction_time = Text ''09:30:00'', transaction_qty = 4611686018427387904,
    store_location = Some ''A'', unit_price = 1, product_category = Some ''Tea'',
    product_type = Some ''Chai'', total_price = 4611686018427387904\<rparr>]"
  by (simp add: load_data_def big_qty_csv_def sale_def load_row_def)

text \<open>
  C7, as stated, fails on two sales of \<open>2 ^ 62\<close> units on the same day: the sum of their
  quantities is \<open>2 ^ 63\<close>, but the daily series holds \<open>- 2 ^ 63\<close>, since the sum of an int64
  column wraps around.
\<close>

theorem daily_series_counterexample:
  "map agg_key (create_daily_metrics (load_data big_qty_csv)) = [1672531200000000000]
   \<and> map agg_transaction_qty (create_daily_metrics (load_data big_qty_csv))
       = [- 9223372036854775808]
   \<and> (\<Sum>r\<leftarrow>load_data big_qty_csv. transaction_qty r) = 9223372036854775808"
  unfolding load_big_qty
  by (simp add: create_daily_metrics_def groupby_def List.map_filter_simps sum_int64_def
      int64_def)

text \<open>
  C7, amended. The daily series has one row per distinct \<^verbatim>\<open>transaction_date\<close> of the
  filtered table, in ascending order of date; the row of a date holds the sum of
  \<^verbatim>\<open>total_price\<close>, the number of distinct \<^verbatim>\<open>transaction_id\<close> values, and the sum
  of \<^verbatim>\<open>transaction_qty\<close> over the rows of that date reduced to int64: the value
  between \<open>- 2 ^ 63\<close> and \<open>2 ^ 63 - 1\<close> that differs from the sum by a multiple of \<open>2 ^ 64\<close>,
  which is the sum itself whenever the sum lies in that range.
\<close>

theorem daily_series_amended:
  "create_daily_metrics fdf =
     map (\<lambda>d. \<lparr>agg_key = d,
                agg_total_price = (\<Sum>r\<leftarrow>filter (\<lambda>r. transaction_date r = d) fdf. total_price r),
                agg_transaction_id = card (transaction_id ` {r \<in> set fdf. transaction_date r = d}),
                agg_transaction_qty =
                  int64 (\<Sum>r\<leftarrow>filter (\<lambda>r. transaction_date r = d) fdf. transaction_qty r)\<rparr>)
         (sorted_list_of_set (transaction_date ` set fdf))
   \<and> sorted_wrt (<) (map agg_key (create_daily_metrics fdf))
   \<and> (\<forall>n. - (2 ^ 63) \<le> n \<and> n < 2 ^ 63 \<longrightarrow> int64 n = n)"
proof -
  have eq: "create_daily_metrics fdf =
     map (\<lambda>d. \<lparr>agg_key = d,
                agg_total_price = (\<Sum>r\<leftarrow>filter (\<lambda>r. transaction_date r = d) fdf. total_price r),
                agg_transaction_id = card (transaction_id ` {r \<in> set fdf. transaction_date r = d}),
                agg_transaction_qty =
                  int64 (\<Sum>r\<leftarrow>filter (\<lambda>r. transaction_date r = d) fdf. transaction_qty r)\<rparr>)
         (sorted_list_of_set (transaction_date ` set fdf))"
    by (simp add: create_daily_metrics_def groupby_keys present_keys_Some nunique_card
        sum_int64_eq comp_def)
  have "map agg_key (create_daily_metrics fdf) = sorted_list_of_set (transaction_date ` set fdf)"
    by (simp add: create_daily_metrics_def groupby_keys present_keys_Some comp_def)
  then have "sorted_wrt (<) (map agg_key (create_daily_metrics fdf))"
    by (simp add: strict_sorted_iff)
  with eq show ?thesis by (simp add: int64_id)
qed

text \<open>The daily series of the worked example: one row, 2023-01-01, with revenue 11 and
  3 items.\<close>

theorem daily_series_amended_witness:
  "create_daily_metrics (load_data example_csv)
     = [\<lparr>agg_key = 1672531200000000000, agg_total_price = 11, agg_transaction_id = 2,
         agg_transaction_qty = 3\<rparr>]
   \<and> - (2 ^ 63) \<le> (3::int) \<and> (3::int) < 2 ^ 63 \<and> int64 3 = 3"
proof -
  have "create_daily_metrics (load_data example_csv)
     = [\<lparr>agg_key = 1672531200000000000, agg_total_price = 11, agg_transaction_id = 2,
         agg_transaction_qty = 3\<rparr>]"
    unfolding load_example
    by (simp add: create_daily_metrics_def groupby_def List.map_filter_simps nunique_def
        sum_int64_def int64_def)
  moreover have "- (2 ^ 63) \<le> (3::int) \<and> (3::int) < 2 ^ 63" by simp
  ultimately show ?thesis
    using daily_series_amended [of "load_data example_csv"] by blast
qed

lemma mean_nonempty:
  "xs \<noteq> [] \<Longrightarrow> mean xs = Some (sum_list xs / of_nat (length xs))"
  by (simp add: mean_def)

lemma hourly_example:
  "hourly_data (time_dtype (load_data example_csv)) (load_data example_csv) = Inl AttributeError"
  unfolding load_example by (simp add: time_dtype_def hourly_data_def)

lemma hourly_short_time:
  "hourly_data (time_dtype (load_data short_time_csv)) (load_data short_time_csv)
     = Inr [(''09'', Some 6), (''10'', Some 6), (''7'', Some 4)]"
  by (simp add: time_dtype_def hourly_data_def groupby_def List.map_filter_simps mean_def
      load_data_def short_time_csv_def timed_sale_def load_row_def)

text \<open>
  C6, as stated, fails in two ways. On the worked example, whose times 0930 and 1030 are
  read as integers, the hourly view raises \<^verbatim>\<open>AttributeError\<close> and returns no groups.
  On a table of text times with one empty time cell, the row of the empty cell, read as
  missing, is in no group: the view has the keys 09, 10 and 7 and no key for the empty
  time.
\<close>

theorem hourly_averages_counterexample:
  "hourly_data (time_dtype (load_data example_csv)) (load_data example_csv) = Inl AttributeError
   \<and> map transaction_time (load_data short_time_csv)
       = [Text ''7'', Text ''10:15:00'', Missing, Text ''09:30:00'', Text ''10:45:00'']
   \<and> hourly_data (time_dtype (load_data short_time_csv)) (load_data short_time_csv)
       = Inr [(''09'', Some 6), (''10'', Some 6), (''7'', Some 4)]"
  using hourly_example hourly_short_time
  by (simp add: load_data_def short_time_csv_def timed_sale_def load_row_def)

text \<open>
  C6, amended. When the column \<^verbatim>\<open>transaction_time\<close> was read as numbers, the hourly
  view raises \<^verbatim>\<open>AttributeError\<close>. When it was read as text, the view has one row per
  distinct hour key, the hour key of a row being the first two characters of its time
  string (all of it when it is shorter: nothing is parsed) and a row whose time is
  missing or not a string having no key and being left out; the rows are in ascending
  order of the key compared as a string, and the row of a key holds the mean of
  \<^verbatim>\<open>total_price\<close> over the rows with that key.
\<close>

theorem hourly_averages_amended:
  "hourly_data Numeric_dtype fdf = Inl AttributeError
   \<and> hourly_data Object_dtype fdf =
       Inr (map (\<lambda>h. (h, Some ((\<Sum>r\<leftarrow>filter (\<lambda>r. str_slice2 (transaction_time r) = Some h) fdf.
                                   total_price r)
                                / of_nat (length (filter (\<lambda>r. str_slice2 (transaction_time r)
                                                               = Some h) fdf)))))
                (sorted_list_of_set (present_keys (\<lambda>r. str_slice2 (transaction_time r)) fdf)))
   \<and> (case hourly_data Object_dtype fdf of
         Inl e \<Rightarrow> False
       | Inr rows \<Rightarrow> sorted_wrt (<) (map fst rows))
   \<and> str_slice2 (Text s) = Some (take 2 s)
   \<and> str_slice2 (Numeric x) = None \<and> str_slice2 Missing = None"
proof -
  let ?by = "\<lambda>r. str_slice2 (transaction_time r)"
  let ?keys = "sorted_list_of_set (present_keys ?by fdf)"
  let ?rows = "map (\<lambda>(k, g). (k, mean (map total_price g))) (groupby ?by fdf)"
  have keys: "map fst ?rows = ?keys"
    by (simp add: groupby_keys comp_def)
  have "sorted (map fst ?rows)"
    unfolding keys using finite_present_keys [of ?by fdf] by simp
  then have "sort_key fst ?rows = ?rows" by (rule sort_key_id_if_sorted)
  then have eq: "hourly_data Object_dtype fdf = Inr ?rows" by (simp add: hourly_data_def)
  have "mean (map total_price (filter (\<lambda>r. ?by r = Some h) fdf))
        = Some ((\<Sum>r\<leftarrow>filter (\<lambda>r. ?by r = Some h) fdf. total_price r)
                / of_nat (length (filter (\<lambda>r. ?by r = Some h) fdf)))"
    if "h \<in> set ?keys" for h
  proof -
    from that have "h \<in> present_keys ?by fdf"
      using finite_present_keys [of ?by fdf] by simp
    then have "filter (\<lambda>r. ?by r = Some h) fdf \<noteq> []"
      by (auto simp: filter_empty_conv present_keys_def)
    then show ?thesis by (simp add: mean_nonempty)
  qed
  then have rows: "?rows =
     map (\<lambda>h. (h, Some ((\<Sum>r\<leftarrow>filter (\<lambda>r. ?by r = Some h) fdf. total_price r)
                        / of_nat (length (filter (\<lambda>r. ?by r = Some h) fdf))))) ?keys"
    by (simp add: groupby_keys comp_def)
  have srt: "sorted_wrt (<) (map fst ?rows)"
    unfolding keys using finite_present_keys [of ?by fdf] by (simp add: strict_sorted_iff)
  have num: "hourly_data Numeric_dtype fdf = Inl AttributeError"
    by (simp add: hourly_data_def)
  show ?thesis
    using num srt rows unfolding eq by simp
qed

text \<open>A time of one character is its own key, and the key 7 comes after the key 10,
  since the keys are compared as strings; the integer times of the worked example
  raise.\<close>

theorem hourly_averages_amended_witness:
  "hourly_data Object_dtype (load_data short_time_csv)
     = Inr [(''09'', Some 6), (''10'', Some 6), (''7'', Some 4)]
   \<and> hourly_data Numeric_dtype (load_data example_csv) = Inl AttributeError"
proof -
  have "time_dtype (load_data short_time_csv) = Object_dtype"
    by (simp add: time_dtype_def load_data_def short_time_csv_def timed_sale_def load_row_def)
  with hourly_short_time hourly_averages_amended [of "load_data example_csv"]
  show ?thesis by simp
qed

lemma map_of_tabulate:
  "map_of (map (\<lambda>k. (k, f k)) ks) l = (if l \<in> set ks then Some (f l) else None)"
  by (induction ks) auto

lemma daily_patterns_by_day:
  "daily_patterns fdf =
     map (\<lambda>day. (day, mean (map total_price
                              (filter (\<lambda>r. day_name (transaction_date r) = day) fdf))))
         day_order"
proof -
  let ?by = "\<lambda>r. day_name (transaction_date r)"
  let ?f = "\<lambda>k. mean (map total_price (filter (\<lambda>r. ?by r = k) fdf))"
  have rows: "map (\<lambda>(k, g). (k, mean (map total_price g))) (groupby (\<lambda>r. Some (?by r)) fdf)
              = map (\<lambda>k. (k, ?f k)) (sorted_list_of_set (?by ` set fdf))"
    by (simp add: groupby_keys present_keys_Some comp_def)
  have "(case map_of (map (\<lambda>k. (k, ?f k)) (sorted_list_of_set (?by ` set fdf))) l of
           None \<Rightarrow> None | Some v \<Rightarrow> v) = ?f l" for l
  proof (cases "l \<in> ?by ` set fdf")
    case True
    then show ?thesis by (simp add: map_of_tabulate)
  next
    case False
    then have "filter (\<lambda>r. ?by r = l) fdf = []"
      by (auto simp: filter_empty_conv)
    with False show ?thesis by (simp add: map_of_tabulate mean_def)
  qed
  then show ?thesis
    unfolding daily_patterns_def rows reindex_def by simp
qed

text \<open>Every timestamp falls on one of the seven days of \<open>day_order\<close>.\<close>

lemma day_name_in_day_order: "day_name t \<in> set day_order"
proof -
  have "nat ((date_of t + 3) mod 7) < length day_order"
    by (simp add: day_order_def nat_less_iff)
  then show ?thesis
    unfolding day_name_def by (rule nth_mem)
qed

text \<open>
  C5. For every table, the day-of-week view has exactly seven rows, labelled Monday to
  Sunday in that order. The value of a weekday that some row falls on is the mean of
  \<^verbatim>\<open>total_price\<close> over the rows of that weekday; the value of a weekday that no row
  falls on is missing (\<open>None\<close>): the day is neither left out nor given the value zero.
\<close>

theorem day_of_week_averages:
  "map fst (daily_patterns fdf) =
     [''Monday'', ''Tuesday'', ''Wednesday'', ''Thursday'', ''Friday'', ''Saturday'', ''Sunday'']
   \<and> length (daily_patterns fdf) = 7
   \<and> map snd (daily_patterns fdf) =
       map (\<lambda>day. if filter (\<lambda>r. day_name (transaction_date r) = day) fdf = [] then None
                   else Some ((\<Sum>r\<leftarrow>filter (\<lambda>r. day_name (transaction_date r) = day) fdf.
                                 total_price r)
                              / of_nat (length (filter (\<lambda>r. day_name (transaction_date r) = day)
                                                  fdf))))
           day_order"
proof -
  have "map fst (daily_patterns fdf) = day_order"
    by (simp add: daily_patterns_by_day comp_def)
  moreover have "length (daily_patterns fdf) = 7"
    by (simp add: daily_patterns_by_day day_order_def)
  moreover have "map snd (daily_patterns fdf) =
       map (\<lambda>day. if filter (\<lambda>r. day_name (transaction_date r) = day) fdf = [] then None
                   else Some ((\<Sum>r\<leftarrow>filter (\<lambda>r. day_name (transaction_date r) = day) fdf.
                                 total_price r)
                              / of_nat (length (filter (\<lambda>r. day_name (transaction_date r) = day)
                                                  fdf))))
           day_order"
    by (simp add: daily_patterns_by_day comp_def mean_def)
  ultimately show ?thesis
    by (simp add: day_order_def)
qed

text \<open>Both rows of the worked example fall on a Sunday: six days are missing.\<close>

theorem day_of_week_averages_witness:
  "daily_patterns (load_data example_csv)
     = [(''Monday'', None), (''Tuesday'', None), (''Wednesday'', None), (''Thursday'', None),
        (''Friday'', None), (''Saturday'', None), (''Sunday'', Some (11 / 2))]
   \<and> length (daily_patterns (load_data example_csv)) = 7"
proof -
  have "daily_patterns (load_data example_csv)
     = [(''Monday'', None), (''Tuesday'', None), (''Wednesday'', None), (''Thursday'', None),
        (''Friday'', None), (''Saturday'', None), (''Sunday'', Some (11 / 2))]"
    unfolding load_example
    by (simp add: daily_patterns_def reindex_def groupby_def List.map_filter_simps mean_def
        day_name_def day_order_def date_of_def ns_per_day_def ns_per_second_def)
  with day_of_week_averages [of "load_data example_csv"] show ?thesis by blast
qed

section \<open>The top ten products\<close>

lemma insort_ranks:
  "sorted_wrt ranks_before ys \<Longrightarrow> \<forall>y\<in>set ys. agg_key x < agg_key y
   \<Longrightarrow> sorted_wrt ranks_before (insort_key (\<lambda>r. - agg_total_price r) x ys)"
  by (induction ys) (auto simp: ranks_before_def set_insort_key)

text \<open>Sorting a table that is in ascending key order by descending revenue, stably,
  leaves the groups of equal revenue in ascending key order.\<close>

lemma sort_ranks:
  "sorted_wrt (<) (map agg_key xs)
   \<Longrightarrow> sorted_wrt ranks_before (sort_key (\<lambda>r. - agg_total_price r) xs)"
proof (induction xs)
  case Nil
  then show ?case by simp
next
  case (Cons x xs)
  then have "sorted_wrt ranks_before (sort_key (\<lambda>r. - agg_total_price r) xs)"
    and "\<forall>y\<in>set (sort_key (\<lambda>r. - agg_total_price r) xs). agg_key x < agg_key y"
    by auto
  then show ?case by (simp add: insort_ranks)
qed

lemma product_keys:
  "map agg_key (create_product_metrics fdf)
   = sorted_list_of_set (present_keys product_key fdf)"
  by (simp add: create_product_metrics_def groupby_keys comp_def)

lemma product_keys_sorted: "sorted_wrt (<) (map agg_key (create_product_metrics fdf))"
  unfolding product_keys using finite_present_keys [of product_key fdf]
  by (simp add: strict_sorted_iff)

lemma length_product_metrics:
  "length (create_product_metrics fdf) = card (present_keys product_key fdf)"
  using arg_cong [OF product_keys, of length fdf] finite_present_keys [of product_key fdf]
  by simp

text \<open>When no product cell is missing, the keys that are present are as many as the
  distinct pairs of cells.\<close>

lemma product_key_eq_Some:
  "product_key r = Some k
   \<longleftrightarrow> product_category r = Some (fst k) \<and> product_type r = Some (snd k)"
  by (cases "product_category r"; cases "product_type r"; cases k)
     (simp_all add: product_key_def)

lemma present_product_keys_all:
  assumes "\<forall>r\<in>set fdf. product_category r \<noteq> None \<and> product_type r \<noteq> None"
  shows "card (present_keys product_key fdf)
         = card ((\<lambda>r. (product_category r, product_type r)) ` set fdf)"
proof -
  let ?g = "\<lambda>k::string \<times> string. (Some (fst k), Some (snd k))"
  have "?g ` present_keys product_key fdf
        = (\<lambda>r. (product_category r, product_type r)) ` set fdf"
  proof (rule set_eqI, rule iffI)
    fix p
    assume "p \<in> ?g ` present_keys product_key fdf"
    then obtain k where k: "k \<in> present_keys product_key fdf" and p: "p = ?g k"
      by (rule imageE)
    from k obtain r where r: "r \<in> set fdf" and "product_key r = Some k"
      unfolding present_keys_def by (simp add: image_iff) metis
    then have "p = (\<lambda>r. (product_category r, product_type r)) r"
      using p by (simp add: product_key_eq_Some)
    then show "p \<in> (\<lambda>r. (product_category r, product_type r)) ` set fdf"
      using r by (rule image_eqI)
  next
    fix p
    assume "p \<in> (\<lambda>r. (product_category r, product_type r)) ` set fdf"
    then obtain r where r: "r \<in> set fdf" and p: "p = (product_category r, product_type r)"
      by (rule imageE)
    from assms r have "product_category r \<noteq> None" "product_type r \<noteq> None"
      by blast+
    then obtain c t where ct: "product_category r = Some c" "product_type r = Some t"
      by blast
    then have "product_key r = Some (c, t)"
      by (simp add: product_key_eq_Some)
    with r have "(c, t) \<in> present_keys product_key fdf"
      unfolding present_keys_def by (simp add: image_iff) (metis)
    moreover have "p = ?g (c, t)"
      using p ct by simp
    ultimately show "p \<in> ?g ` present_keys product_key fdf"
      by (rule rev_image_eqI)
  qed
  moreover have "inj_on ?g (present_keys product_key fdf)"
    by (rule inj_onI) (simp add: prod_eq_iff)
  ultimately show ?thesis
    using card_image [of ?g "present_keys product_key fdf"] by simp
qed

lemma sorted_wrt_take_drop:
  assumes "sorted_wrt R xs"
  shows "sorted_wrt R (take n xs) \<and> (\<forall>a\<in>set (take n xs). \<forall>b\<in>set (drop n xs). R a b)"
proof -
  have "sorted_wrt R (take n xs @ drop n xs)" using assms by simp
  then show ?thesis unfolding sorted_wrt_append by blast
qed

lemma load_tie: "load_data tie_csv =
  [\<lparr>transaction_id = 1, transaction_date = 1672531200000000000,
    transaction_time = Text ''09:30:00'', transaction_qty = 1, store_location = Some ''A'',
    unit_price = 5, product_category = Some ''Tea'', product_type = Some ''Chai'',
    total_price = 5\<rparr>,
   \<lparr>transaction_id = 2, transaction_date = 1672531200000000000,
    transaction_time = Text ''09:30:00'', transaction_qty = 1, store_location = Some ''A'',
    unit_price = 5, product_category = Some ''Coffee'', product_type = Some ''Latte'',
    total_price = 5\<rparr>]"
  by (simp add: load_data_def tie_csv_def sale_def load_row_def)

text \<open>
  C4, as stated, fails on a table of two products with the same revenue, Tea/Chai sold
  before Coffee/Latte. The revenues of the selection are 5 and 5, which is not a strictly
  descending sequence; and the selection lists Coffee/Latte before Tea/Chai, although
  Tea/Chai is the group met first in the table: \<^verbatim>\<open>groupby\<close> has put the groups in
  ascending key order before the selection sees them.
\<close>

theorem top_products_counterexample:
  "\<not> sorted_wrt (>) (map agg_total_price (top_products (load_data tie_csv)))
   \<and> map agg_key (top_products (load_data tie_csv)) = [(''Coffee'', ''Latte''), (''Tea'', ''Chai'')]
   \<and> unique (map (\<lambda>r. (product_category r, product_type r)) (load_data tie_csv))
       = [(Some ''Tea'', Some ''Chai''), (Some ''Coffee'', Some ''Latte'')]"
proof -
  have "top_products (load_data tie_csv) =
    [\<lparr>agg_key = (''Coffee'', ''Latte''), agg_total_price = 5, agg_transaction_id = 1,
      agg_transaction_qty = 1\<rparr>,
     \<lparr>agg_key = (''Tea'', ''Chai''), agg_total_price = 5, agg_transaction_id = 1,
      agg_transaction_qty = 1\<rparr>]"
    unfolding load_tie
    by (simp add: top_products_def nlargest_def create_product_metrics_def groupby_def
        product_key_def List.map_filter_simps sum_int64_def int64_def)
  moreover have "unique (map (\<lambda>r. (product_category r, product_type r)) (load_data tie_csv))
       = [(Some ''Tea'', Some ''Chai''), (Some ''Coffee'', Some ''Latte'')]"
    unfolding load_tie by simp
  ultimately show ?thesis by simp
qed

text \<open>
  C4, amended. For every filtered table, the selection of the top ten products has
  exactly \<open>min 10 n\<close> rows, \<open>n\<close> being the number of distinct (category, type) keys that
  are present, which is the number of distinct (category, type) pairs when no product
  cell is missing; all of them are rows of the product metrics. Its revenues are in
  descending order, equal revenues allowed; groups of equal revenue appear in the order
  of the product metrics, which is ascending (category, type) order, not the order in
  which the groups are first met in the table. Every selected group ranks before every
  group left out: it has a larger revenue, or the same revenue and a smaller key.
\<close>

theorem top_products_amended:
  "length (top_products fdf) = min 10 (card (present_keys product_key fdf))
   \<and> ((\<forall>r\<in>set fdf. product_category r \<noteq> None \<and> product_type r \<noteq> None) \<longrightarrow>
        length (top_products fdf)
          = min 10 (card ((\<lambda>r. (product_category r, product_type r)) ` set fdf)))
   \<and> set (top_products fdf) \<subseteq> set (create_product_metrics fdf)
   \<and> sorted_wrt (\<ge>) (map agg_total_price (top_products fdf))
   \<and> sorted_wrt ranks_before (top_products fdf)
   \<and> (\<forall>a\<in>set (top_products fdf). \<forall>b\<in>set (create_product_metrics fdf).
        b \<notin> set (top_products fdf) \<longrightarrow> ranks_before a b)"
proof -
  let ?pm = "create_product_metrics fdf"
  let ?s = "sort_key (\<lambda>r. - agg_total_price r) ?pm"
  have top: "top_products fdf = take 10 ?s"
    by (simp add: top_products_def nlargest_def)
  have len: "length (top_products fdf) = min 10 (card (present_keys product_key fdf))"
    by (simp add: top length_product_metrics)
  have len': "length (top_products fdf)
          = min 10 (card ((\<lambda>r. (product_category r, product_type r)) ` set fdf))"
    if "\<forall>r\<in>set fdf. product_category r \<noteq> None \<and> product_type r \<noteq> None"
    using len present_product_keys_all [OF that] by simp
  have sub: "set (top_products fdf) \<subseteq> set ?pm"
    unfolding top using set_take_subset [of 10 ?s] by simp
  have ranked: "sorted_wrt ranks_before ?s"
    using product_keys_sorted by (rule sort_ranks)
  have r1: "sorted_wrt ranks_before (top_products fdf)"
    and r2: "\<forall>a\<in>set (top_products fdf). \<forall>b\<in>set (drop 10 ?s). ranks_before a b"
    using sorted_wrt_take_drop [OF ranked, of 10] unfolding top by blast+
  have "set ?pm = set (take 10 ?s) \<union> set (drop 10 ?s)"
    using set_append [of "take 10 ?s" "drop 10 ?s"] by simp
  then have out: "b \<in> set (drop 10 ?s)" if "b \<in> set ?pm" "b \<notin> set (top_products fdf)" for b
    using that unfolding top by blast
  have desc: "sorted_wrt (\<ge>) (map agg_total_price (top_products fdf))"
    unfolding sorted_wrt_map
    by (rule sorted_wrt_mono_rel [OF _ r1]) (auto simp: ranks_before_def)
  show ?thesis
    using len len' sub desc r1 r2 out by blast
qed

lemma pm_eleven: "create_product_metrics (load_data eleven_csv) =
   map (\<lambda>(t, p). \<lparr>agg_key = (''Tea'', t), agg_total_price = p, agg_transaction_id = 1,
                   agg_transaction_qty = 1\<rparr>)
     [(''A'', 3), (''B'', 9), (''C'', 1), (''D'', 11), (''E'', 4), (''F'', 8), (''G'', 2),
      (''H'', 10), (''I'', 5), (''J'', 7), (''K'', 6)]"
  by (simp add: create_product_metrics_def groupby_def product_key_def List.map_filter_simps
      sum_int64_def int64_def load_data_def eleven_csv_def sale_def load_row_def)

lemma top_eleven: "top_products (load_data eleven_csv) =
   map (\<lambda>(t, p). \<lparr>agg_key = (''Tea'', t), agg_total_price = p, agg_transaction_id = 1,
                   agg_transaction_qty = 1\<rparr>)
     [(''D'', 11), (''H'', 10), (''B'', 9), (''F'', 8), (''J'', 7), (''K'', 6), (''I'', 5),
      (''E'', 4), (''A'', 3), (''G'', 2)]"
  unfolding top_products_def nlargest_def pm_eleven by simp

text \<open>On a table of eleven products, none with a missing cell, the selection has ten
  rows; the product of revenue 2 is the last one selected, the product of revenue 1 is
  left out, and the former ranks before the latter.\<close>

theorem top_products_amended_witness:
  "\<lparr>agg_key = (''Tea'', ''G''), agg_total_price = 2, agg_transaction_id = 1,
     agg_transaction_qty = 1\<rparr> \<in> set (top_products (load_data eleven_csv))
   \<and> \<lparr>agg_key = (''Tea'', ''C''), agg_total_price = 1, agg_transaction_id = 1,
     agg_transaction_qty = 1\<rparr> \<in> set (create_product_metrics (load_data eleven_csv))
   \<and> \<lparr>agg_key = (''Tea'', ''C''), agg_total_price = 1, agg_transaction_id = 1,
     agg_transaction_qty = 1\<rparr> \<notin> set (top_products (load_data eleven_csv))
   \<and> ranks_before
       \<lparr>agg_key = (''Tea'', ''G''), agg_total_price = 2, agg_transaction_id = 1,
         agg_transaction_qty = 1\<rparr>
       \<lparr>agg_key = (''Tea'', ''C''), agg_total_price = 1, agg_transaction_id = 1,
         agg_transaction_qty = 1\<rparr>
   \<and> min 10 (card ((\<lambda>r. (product_category r, product_type r)) ` set (load_data eleven_csv)))
       = 10
   \<and> length (top_products (load_data eleven_csv)) = 10"
proof -
  let ?g = "\<lparr>agg_key = (''Tea'', ''G''), agg_total_price = 2, agg_transaction_id = 1,
     agg_transaction_qty = 1\<rparr>"
  let ?c = "\<lparr>agg_key = (''Tea'', ''C''), agg_total_price = 1, agg_transaction_id = 1,
     agg_transaction_qty = 1\<rparr>"
  have g: "?g \<in> set (top_products (load_data eleven_csv))"
    unfolding top_eleven by simp
  have c: "?c \<in> set (create_product_metrics (load_data eleven_csv))"
    unfolding pm_eleven by simp
  have nc: "?c \<notin> set (top_products (load_data eleven_csv))"
    unfolding top_eleven by simp
  have len: "length (top_products (load_data eleven_csv)) = 10"
    unfolding top_eleven by simp
  have all: "\<forall>r\<in>set (load_data eleven_csv). product_category r \<noteq> None \<and> product_type r \<noteq> None"
    by (simp add: load_data_def eleven_csv_def sale_def load_row_def)
  from top_products_amended [of "load_data eleven_csv"] g c nc
  have "ranks_before ?g ?c" by blast
  moreover from top_products_amended [of "load_data eleven_csv"] all len
  have "min 10 (card ((\<lambda>r. (product_category r, product_type r)) ` set (load_data eleven_csv)))
       = 10" by simp
  ultimately show ?thesis using g c nc len by blast
qed

section \<open>The page\<close>

text \<open>
  C1, as stated, fails on two sales of \<open>2 ^ 62\<close> units: the sum of the quantities is
  \<open>2 ^ 63\<close>, but the metric of the items sold is \<open>- 2 ^ 63\<close>, since the sum of an int64
  column wraps around.
\<close>

theorem kpi_summary_counterexample:
  "kpi_metrics (load_data big_qty_csv) =
     [Metric ''Total Revenue'' (Dollars (Some 9223372036854775808)),
      Metric ''Total Transactions'' (Number 2),
      Metric ''Avg Transaction Value'' (Dollars (Some 4611686018427387904)),
      Metric ''Total Items Sold'' (Number (- 9223372036854775808))]
   \<and> (\<Sum>r\<leftarrow>load_data big_qty_csv. transaction_qty r) = 9223372036854775808"
  unfolding load_big_qty
  by (simp add: kpi_metrics_def nunique_def mean_def sum_int64_def int64_def)

text \<open>
  C1, amended. On a non-empty filtered table the four top-level metrics are: the sum of
  \<^verbatim>\<open>total_price\<close> over the rows; the number of distinct \<^verbatim>\<open>transaction_id\<close>
  values; the mean of \<^verbatim>\<open>total_price\<close> over the rows, that is the revenue divided by
  the number of rows and not by the number of transactions; and the sum of
  \<^verbatim>\<open>transaction_qty\<close> reduced to int64, which is the sum itself whenever the sum lies
  between \<open>- 2 ^ 63\<close> and \<open>2 ^ 63 - 1\<close>. On the two rows of the worked example they are
  11, 2, 5.50 and 3.
\<close>

theorem kpi_summary_amended:
  assumes "fdf \<noteq> []"
  shows "kpi_metrics fdf =
           [Metric ''Total Revenue'' (Dollars (Some (\<Sum>r\<leftarrow>fdf. total_price r))),
            Metric ''Total Transactions'' (Number (int (card (transaction_id ` set fdf)))),
            Metric ''Avg Transaction Value''
              (Dollars (Some ((\<Sum>r\<leftarrow>fdf. total_price r) / of_nat (length fdf)))),
            Metric ''Total Items Sold'' (Number (int64 (\<Sum>r\<leftarrow>fdf. transaction_qty r)))]
         \<and> (- (2 ^ 63) \<le> (\<Sum>r\<leftarrow>fdf. transaction_qty r)
              \<and> (\<Sum>r\<leftarrow>fdf. transaction_qty r) < 2 ^ 63
            \<longrightarrow> int64 (\<Sum>r\<leftarrow>fdf. transaction_qty r) = (\<Sum>r\<leftarrow>fdf. transaction_qty r))
         \<and> kpi_metrics (load_data example_csv) =
           [Metric ''Total Revenue'' (Dollars (Some 11)),
            Metric ''Total Transactions'' (Number 2),
            Metric ''Avg Transaction Value'' (Dollars (Some (11 / 2))),
            Metric ''Total Items Sold'' (Number 3)]"
proof -
  have "kpi_metrics (load_data example_csv) =
           [Metric ''Total Revenue'' (Dollars (Some 11)),
            Metric ''Total Transactions'' (Number 2),
            Metric ''Avg Transaction Value'' (Dollars (Some (11 / 2))),
            Metric ''Total Items Sold'' (Number 3)]"
    unfolding load_example
    by (simp add: kpi_metrics_def nunique_def mean_def sum_int64_def int64_def)
  then show ?thesis
    using assms by (simp add: kpi_metrics_def nunique_card mean_def sum_int64_eq int64_id)
qed

text \<open>The worked example is a non-empty table whose quantities add up to 3, within the
  range of int64, and the general formulas give its four numbers.\<close>

theorem kpi_summary_amended_witness:
  "load_data example_csv \<noteq> []
   \<and> (\<Sum>r\<leftarrow>load_data example_csv. transaction_qty r) = 3
   \<and> - (2 ^ 63) \<le> (3::int) \<and> (3::int) < 2 ^ 63
   \<and> int64 (\<Sum>r\<leftarrow>load_data example_csv. transaction_qty r) = 3
   \<and> kpi_metrics (load_data example_csv) =
       [Metric ''Total Revenue'' (Dollars (Some (\<Sum>r\<leftarrow>load_data example_csv. total_price r))),
        Metric ''Total Transactions''
          (Number (int (card (transaction_id ` set (load_data example_csv))))),
        Metric ''Avg Transaction Value''
          (Dollars (Some ((\<Sum>r\<leftarrow>load_data example_csv. total_price r)
                          / of_nat (length (load_data example_csv))))),
        Metric ''Total Items Sold''
          (Number (int64 (\<Sum>r\<leftarrow>load_data example_csv. transaction_qty r)))]"
proof -
  have ne: "load_data example_csv \<noteq> []"
    unfolding load_example by simp
  have q: "(\<Sum>r\<leftarrow>load_data example_csv. transaction_qty r) = 3"
    unfolding load_example by simp
  have rng: "- (2 ^ 63) \<le> (3::int) \<and> (3::int) < 2 ^ 63" by simp
  from kpi_summary_amended [OF ne] q rng
  have "int64 (\<Sum>r\<leftarrow>load_data example_csv. transaction_qty r) = 3"
    by simp
  with kpi_summary_amended [OF ne] ne q rng show ?thesis by blast
qed

text \<open>With two line items in one transaction the average is the revenue over the two
  rows, 5.50, and not the revenue over the one transaction.\<close>

lemma avg_is_per_row:
  "kpi_metrics (load_data one_basket_csv) =
     [Metric ''Total Revenue'' (Dollars (Some 11)),
      Metric ''Total Transactions'' (Number 1),
      Metric ''Avg Transaction Value'' (Dollars (Some (11 / 2))),
      Metric ''Total Items Sold'' (Number 2)]"
  by (simp add: kpi_metrics_def nunique_def mean_def sum_int64_def int64_def load_data_def
      one_basket_csv_def sale_def load_row_def)

text \<open>The charts fail exactly when the hourly view does: on a numeric time column.\<close>

lemma charts_numeric: "charts Numeric_dtype fdf = Inl AttributeError"
  by (simp add: charts_def hourly_data_def)

lemma charts_object:
  "\<exists>hourly. hourly_data Object_dtype fdf = Inr hourly
     \<and> charts Object_dtype fdf =
         Inr (charts_before_hourly fdf
              @ [Plotly_chart (Fig_hourly hourly),
                 Plotly_chart (Fig_daily (daily_patterns fdf)),
                 Dataframe fdf])"
  by (simp add: charts_def hourly_data_def)

text \<open>
  C9. Once the table is loaded and non-empty, a selection that filters every row out
  makes \<^verbatim>\<open>main\<close> emit the sidebar, the title and the notice that no data is
  available, and nothing that shows a number, a chart or a table. The metrics and the
  charts are emitted only in the other case, computed from a non-empty filtered table:
  with a time column of text \<^verbatim>\<open>main\<close> emits the four metrics and then the charts,
  with a numeric time column it raises \<^verbatim>\<open>AttributeError\<close> at the hourly view; and
  whenever what \<^verbatim>\<open>main\<close> emits holds a metric, a chart or a table, the filtered table
  is not empty.
\<close>

theorem no_data_short_circuit:
  assumes "df = load_data csv" and "df \<noteq> []"
    and "fdf = filtered_df df (start_date d0) (end_date d1) selected_stores"
  shows "(fdf = [] \<longrightarrow>
            main csv (d0 # d1 # ds) selected_stores =
              Inr (Page_config ''Maven Roasters Dashboard'' # sidebar df
                   @ [Title ''Maven Roasters Sales Dashboard'',
                      Warning ''No data available for the selected filters.''])
            \<and> filter shows_data
                 (Page_config ''Maven Roasters Dashboard'' # sidebar df
                   @ [Title ''Maven Roasters Sales Dashboard'',
                      Warning ''No data available for the selected filters.'']) = [])
       \<and> (fdf \<noteq> [] \<and> time_dtype df = Object_dtype \<longrightarrow>
            (\<exists>cs. charts Object_dtype fdf = Inr cs
               \<and> main csv (d0 # d1 # ds) selected_stores =
                   Inr (Page_config ''Maven Roasters Dashboard'' # sidebar df
                        @ [Title ''Maven Roasters Sales Dashboard'']
                        @ kpi_metrics fdf @ cs)))
       \<and> (fdf \<noteq> [] \<and> time_dtype df = Numeric_dtype \<longrightarrow>
            main csv (d0 # d1 # ds) selected_stores = Inl AttributeError)
       \<and> (\<forall>out e. main csv (d0 # d1 # ds) selected_stores = Inr out
              \<and> e \<in> set out \<and> shows_data e \<longrightarrow> fdf \<noteq> [])"
proof -
  let ?m = "main csv (d0 # d1 # ds) selected_stores"
  let ?notice = "Page_config ''Maven Roasters Dashboard'' # sidebar df
                   @ [Title ''Maven Roasters Sales Dashboard'',
                      Warning ''No data available for the selected filters.'']"
  have empty: "?m = Inr ?notice" if "fdf = []"
    using assms(2) that unfolding assms(3) assms(1) by (simp add: main_def Let_def)
  have quiet: "filter shows_data ?notice = []"
    by (simp add: sidebar_def)
  have full: "?m = (case charts (time_dtype df) fdf of
                      Inl e \<Rightarrow> Inl e
                    | Inr cs \<Rightarrow>
                        Inr (Page_config ''Maven Roasters Dashboard'' # sidebar df
                             @ [Title ''Maven Roasters Sales Dashboard'']
                             @ kpi_metrics fdf @ cs))"
    if "fdf \<noteq> []"
    using assms(2) that unfolding assms(3) assms(1)
    by (simp add: main_def Let_def split: sum.split)
  have obj: "\<exists>cs. charts Object_dtype fdf = Inr cs
               \<and> ?m = Inr (Page_config ''Maven Roasters Dashboard'' # sidebar df
                           @ [Title ''Maven Roasters Sales Dashboard'']
                           @ kpi_metrics fdf @ cs)"
    if "fdf \<noteq> [] \<and> time_dtype df = Object_dtype"
  proof -
    obtain cs where cs: "charts Object_dtype fdf = Inr cs"
      using charts_object [of fdf] by blast
    from that have "fdf \<noteq> []" and dt: "time_dtype df = Object_dtype"
      by simp_all
    from full [OF this(1)] have "?m = Inr (Page_config ''Maven Roasters Dashboard'' # sidebar df
                           @ [Title ''Maven Roasters Sales Dashboard'']
                           @ kpi_metrics fdf @ cs)"
      by (simp add: dt cs)
    with cs show ?thesis by (intro exI conjI)
  qed
  have num: "?m = Inl AttributeError"
    if "fdf \<noteq> [] \<and> time_dtype df = Numeric_dtype"
  proof -
    from that have "fdf \<noteq> []" and dt: "time_dtype df = Numeric_dtype"
      by simp_all
    from full [OF this(1)] show ?thesis
      by (simp add: dt charts_numeric)
  qed
  have conv: "fdf \<noteq> []" if "?m = Inr out \<and> e \<in> set out \<and> shows_data e" for out e
  proof
    assume "fdf = []"
    from that have m: "?m = Inr out" and e: "e \<in> set out" "shows_data e"
      by simp_all
    from empty [OF \<open>fdf = []\<close>] m have "out = ?notice"
      by simp
    then have "filter shows_data out = []"
      using quiet by (simp only:)
    moreover have "e \<in> set (filter shows_data out)"
      using e by simp
    ultimately show False by simp
  qed
  show ?thesis
  proof (intro conjI impI allI)
    assume "fdf = []"
    then show "?m = Inr ?notice" by (rule empty)
  next
    show "filter shows_data ?notice = []" by (rule quiet)
  next
    assume "fdf \<noteq> [] \<and> time_dtype df = Object_dtype"
    then show "\<exists>cs. charts Object_dtype fdf = Inr cs
               \<and> ?m = Inr (Page_config ''Maven Roasters Dashboard'' # sidebar df
                           @ [Title ''Maven Roasters Sales Dashboard'']
                           @ kpi_metrics fdf @ cs)"
      by (rule obj)
  next
    assume "fdf \<noteq> [] \<and> time_dtype df = Numeric_dtype"
    then show "?m = Inl AttributeError" by (rule num)
  next
    fix out e
    assume "?m = Inr out \<and> e \<in> set out \<and> shows_data e"
    then show "fdf \<noteq> []" by (rule conv)
  qed
qed

lemma filtered_example_none:
  "filtered_df (load_data example_csv) (start_date 19358) (end_date 19358) [] = []"
  by (simp add: filtered_df_def)

lemma filtered_example_A:
  "filtered_df (load_data example_csv) (start_date 19358) (end_date 19358) [Some ''A'']
   = [\<lparr>transaction_id = 1, transaction_date = 1672531200000000000,
       transaction_time = Numeric 930, transaction_qty = 2, store_location = Some ''A'',
       unit_price = 3, product_category = Some ''Coffee'', product_type = Some ''Latte'',
       total_price = 6\<rparr>]"
  unfolding filtered_df_by_day load_example
  by (simp add: date_of_def ns_per_day_def ns_per_second_def)

lemma load_one_basket: "load_data one_basket_csv =
  [\<lparr>transaction_id = 1, transaction_date = 1672531200000000000,
    transaction_time = Text ''09:30:00'', transaction_qty = 1, store_location = Some ''A'',
    unit_price = 6, product_category = Some ''Coffee'', product_type = Some ''Latte'',
    total_price = 6\<rparr>,
   \<lparr>transaction_id = 1, transaction_date = 1672531200000000000,
    transaction_time = Text ''09:30:00'', transaction_qty = 1, store_location = Some ''A'',
    unit_price = 5, product_category = Some ''Tea'', product_type = Some ''Chai'',
    total_price = 5\<rparr>]"
  by (simp add: load_data_def one_basket_csv_def sale_def load_row_def)

lemma filtered_one_basket:
  "filtered_df (load_data one_basket_csv) (start_date 19358) (end_date 19358) [Some ''A'']
   = load_data one_basket_csv"
  unfolding filtered_df_by_day load_one_basket
  by (simp add: date_of_def ns_per_day_def ns_per_second_def)

text \<open>On the worked example the selection of no store gives the notice, and the
  selection of store A raises at the hourly view, the times being integers; on a table
  with text times the selection of store A gives the metrics and the charts.\<close>

theorem no_data_short_circuit_witness:
  "load_data example_csv \<noteq> []
   \<and> filtered_df (load_data example_csv) (start_date 19358) (end_date 19358) [] = []
   \<and> main example_csv [19358, 19358] [] =
       Inr (Page_config ''Maven Roasters Dashboard'' # sidebar (load_data example_csv)
            @ [Title ''Maven Roasters Sales Dashboard'',
               Warning ''No data available for the selected filters.''])
   \<and> filtered_df (load_data example_csv) (start_date 19358) (end_date 19358) [Some ''A'']
       \<noteq> []
   \<and> time_dtype (load_data example_csv) = Numeric_dtype
   \<and> main example_csv [19358, 19358] [Some ''A''] = Inl AttributeError
   \<and> filtered_df (load_data one_basket_csv) (start_date 19358) (end_date 19358) [Some ''A'']
       \<noteq> []
   \<and> time_dtype (load_data one_basket_csv) = Object_dtype
   \<and> (\<exists>cs. charts Object_dtype (load_data one_basket_csv) = Inr cs
         \<and> main one_basket_csv [19358, 19358] [Some ''A''] =
             Inr (Page_config ''Maven Roasters Dashboard'' # sidebar (load_data one_basket_csv)
                  @ [Title ''Maven Roasters Sales Dashboard'']
                  @ kpi_metrics (load_data one_basket_csv) @ cs))"
proof -
  have ne: "load_data example_csv \<noteq> []"
    unfolding load_example by simp
  have a: "filtered_df (load_data example_csv) (start_date 19358) (end_date 19358) [Some ''A'']
             \<noteq> []"
    unfolding filtered_example_A by simp
  have dt: "time_dtype (load_data example_csv) = Numeric_dtype"
    unfolding load_example by (simp add: time_dtype_def)
  have ne1: "load_data one_basket_csv \<noteq> []"
    unfolding load_one_basket by simp
  have b: "filtered_df (load_data one_basket_csv) (start_date 19358) (end_date 19358)
             [Some ''A''] \<noteq> []"
    unfolding filtered_one_basket by (rule ne1)
  have dt1: "time_dtype (load_data one_basket_csv) = Object_dtype"
    unfolding load_one_basket by (simp add: time_dtype_def)
  have 1: "main example_csv [19358, 19358] [] =
       Inr (Page_config ''Maven Roasters Dashboard'' # sidebar (load_data example_csv)
            @ [Title ''Maven Roasters Sales Dashboard'',
               Warning ''No data available for the selected filters.''])"
    by (rule no_data_short_circuit [OF refl ne refl, THEN conjunct1, THEN mp,
          OF filtered_example_none, THEN conjunct1])
  have 2: "main example_csv [19358, 19358] [Some ''A''] = Inl AttributeError"
    by (rule no_data_short_circuit [OF refl ne refl, THEN conjunct2, THEN conjunct2,
          THEN conjunct1, THEN mp, OF conjI [OF a dt]])
  have "\<exists>cs. charts Object_dtype
               (filtered_df (load_data one_basket_csv) (start_date 19358) (end_date 19358)
                  [Some ''A'']) = Inr cs
         \<and> main one_basket_csv [19358, 19358] [Some ''A''] =
             Inr (Page_config ''Maven Roasters Dashboard'' # sidebar (load_data one_basket_csv)
                  @ [Title ''Maven Roasters Sales Dashboard'']
                  @ kpi_metrics
                      (filtered_df (load_data one_basket_csv) (start_date 19358)
                         (end_date 19358) [Some ''A'']) @ cs)"
    by (rule no_data_short_circuit [OF refl ne1 refl, THEN conjunct2, THEN conjunct1, THEN mp,
          OF conjI [OF b dt1]])
  then have 3: "\<exists>cs. charts Object_dtype (load_data one_basket_csv) = Inr cs
         \<and> main one_basket_csv [19358, 19358] [Some ''A''] =
             Inr (Page_config ''Maven Roasters Dashboard'' # sidebar (load_data one_basket_csv)
                  @ [Title ''Maven Roasters Sales Dashboard'']
                  @ kpi_metrics (load_data one_basket_csv) @ cs)"
    unfolding filtered_one_basket .
  show ?thesis
    by (rule conjI ne filtered_example_none 1 a dt 2 b dt1 3)+
qed

text \<open>The other two ways out of \<^verbatim>\<open>main\<close>: an empty table ends it before the
  sidebar, and a date widget that holds fewer than two dates raises.\<close>

lemma main_empty_table:
  "main [] date_range selected_stores = Inr [Page_config ''Maven Roasters Dashboard'']"
  by (simp add: main_def load_data_def)

lemma main_short_date_range:
  "load_data csv \<noteq> [] \<Longrightarrow> length date_range < 2
   \<Longrightarrow> main csv date_range selected_stores = Inl IndexError"
  by (cases date_range; cases "tl date_range") (auto simp: main_def Let_def)

end
